theory Spec2Isabelle
  imports Main "HOL-Library.Word"
begin

section \<open>The Person extension type of mymodule.c\<close>

text \<open>
  This theory embeds the C extension type \<^verbatim>\<open>mymodule.Person\<close> (file \<^verbatim>\<open>mymodule.c\<close>)
  and proves properties of its construction, initialisation, member access, \<^verbatim>\<open>str\<close>
  and \<^verbatim>\<open>name()\<close>.

  The C functions call into the CPython C API. The API functions they call are embedded
  here as far as the code uses them, following their documented behaviour and the
  CPython sources (\<^verbatim>\<open>Python/getargs.c\<close>, \<^verbatim>\<open>Python/structmember.c\<close>,
  \<^verbatim>\<open>Objects/unicodeobject.c\<close>, \<^verbatim>\<open>Objects/typeobject.c\<close>). Reference counts are not
  modelled: objects are values, and a \<^verbatim>\<open>NULL\<close> pointer is \<open>None\<close>.
\<close>

subsection \<open>Python objects and exceptions\<close>

text \<open>
  The Python values of the model: text (\<^verbatim>\<open>str\<close>), integers of any size (\<^verbatim>\<open>int\<close>),
  booleans (a subtype of \<^verbatim>\<open>int\<close> in Python) and \<^verbatim>\<open>None\<close>.
\<close>

datatype pyobj = PyUnicode string | PyLong int | PyBool bool | PyNone

text \<open>
  The exceptions the code and the API calls it makes can raise, one constructor per cause.
  \<open>exception_class\<close> gives the Python exception type of each.
\<close>

datatype py_error =
    NoMemory                          \<comment> \<open>an allocation returned \<^verbatim>\<open>NULL\<close>\<close>
  | TooManyArguments nat nat          \<comment> \<open>"function takes at most \<open>len\<close> arguments (\<open>n\<close> given)"\<close>
  | NotAnInteger                      \<comment> \<open>"object cannot be interpreted as an integer"\<close>
  | LongOverflow                      \<comment> \<open>"Python int too large to convert to C long"\<close>
  | IntTooLarge                       \<comment> \<open>"signed integer is greater than maximum"\<close>
  | IntTooSmall                       \<comment> \<open>"signed integer is less than minimum"\<close>
  | GivenByNameAndPosition string     \<comment> \<open>"argument given by name and position"\<close>
  | InvalidKeyword string             \<comment> \<open>"is an invalid keyword argument for this function"\<close>
  | InvalidKeywordUnknown             \<comment> \<open>"invalid keyword argument for this function"\<close>
  | MissingAttribute string           \<comment> \<open>\<^verbatim>\<open>AttributeError\<close> carrying the member's name\<close>
  | CannotDeleteNumeric               \<comment> \<open>"can't delete numeric/char attribute"\<close>
  | BadFormat                         \<comment> \<open>a format directive that is not modelled\<close>

datatype exc_class = MemoryError | TypeError | OverflowError | AttributeError | SystemError

fun exception_class :: "py_error \<Rightarrow> exc_class" where
  "exception_class NoMemory = MemoryError"
| "exception_class (TooManyArguments _ _) = TypeError"
| "exception_class NotAnInteger = TypeError"
| "exception_class LongOverflow = OverflowError"
| "exception_class IntTooLarge = OverflowError"
| "exception_class IntTooSmall = OverflowError"
| "exception_class (GivenByNameAndPosition _) = TypeError"
| "exception_class (InvalidKeyword _) = TypeError"
| "exception_class InvalidKeywordUnknown = TypeError"
| "exception_class (MissingAttribute _) = AttributeError"
| "exception_class CannotDeleteNumeric = TypeError"
| "exception_class BadFormat = SystemError"

subsection \<open>C integers\<close>

text \<open>
  \<^verbatim>\<open>int\<close> is 32 bits wide and \<^verbatim>\<open>long\<close> 64 bits (the LP64 data model of the
  platforms CPython extensions are built on with gcc or clang).
\<close>

definition INT_MAX :: int where "INT_MAX = 2147483647"
definition INT_MIN :: int where "INT_MIN = - 2147483648"
definition LONG_MAX :: int where "LONG_MAX = 9223372036854775807"
definition LONG_MIN :: int where "LONG_MIN = - 9223372036854775808"

text \<open>
  \<^verbatim>\<open>PyLong_AsLong\<close>: the value of an \<^verbatim>\<open>int\<close> object (or of a \<^verbatim>\<open>bool\<close>) as a C
  \<^verbatim>\<open>long\<close>; \<^verbatim>\<open>OverflowError\<close> when it does not fit, \<^verbatim>\<open>TypeError\<close> for an
  object that is not an integer.
\<close>

fun PyLong_AsLong :: "pyobj \<Rightarrow> py_error + int" where
  "PyLong_AsLong (PyLong n) = (if LONG_MIN \<le> n \<and> n \<le> LONG_MAX then Inr n else Inl LongOverflow)"
| "PyLong_AsLong (PyBool b) = Inr (if b then 1 else 0)"
| "PyLong_AsLong (PyUnicode s) = Inl NotAnInteger"
| "PyLong_AsLong PyNone = Inl NotAnInteger"

subsection \<open>The record\<close>

text \<open>
  \<^verbatim>\<open>struct Person { PyObject_HEAD PyObject *first_name; PyObject *last_name; int number; }\<close>
\<close>

record Person =
  first_name :: "pyobj option"
  last_name :: "pyobj option"
  number :: "32 word"

subsection \<open>Argument parsing\<close>

text \<open>
  \<^verbatim>\<open>PyArg_ParseTupleAndKeywords(args, kwds, "|OOi", kwlist, ...)\<close>.
  The positional arguments are a list, the keyword arguments an association list that
  stands for the dictionary \<open>map_of kwds\<close>; its size is the number of its distinct keys.
  A format unit \<^verbatim>\<open>O\<close> stores the object as it is, without any check of its type; a unit
  \<^verbatim>\<open>i\<close> converts the object to a C \<^verbatim>\<open>int\<close>. The leading \<^verbatim>\<open>|\<close> of the format
  makes every parameter optional, so the parser's branch for a missing required argument
  is never taken and is left out.
\<close>

datatype fmt_unit = Fmt_O | Fmt_i

datatype cval = CObject pyobj | CInt "32 word"

fun convertitem :: "pyobj \<Rightarrow> fmt_unit \<Rightarrow> py_error + cval" where
  "convertitem a Fmt_O = Inr (CObject a)"
| "convertitem a Fmt_i =
     (case PyLong_AsLong a of
        Inl e \<Rightarrow> Inl e
      | Inr ival \<Rightarrow>
          if ival > INT_MAX then Inl IntTooLarge
          else if ival < INT_MIN then Inl IntTooSmall
          else Inr (CInt (word_of_int ival)))"

definition dict_size :: "(string \<times> pyobj) list \<Rightarrow> nat" where
  "dict_size kwds = length (remdups (map fst kwds))"

text \<open>
  The parser's main loop runs over the parameters in the order of \<open>kwlist\<close>. Parameter
  \<open>i\<close> takes the \<open>i\<close>-th positional argument when there is one, and otherwise the
  keyword argument of its name while keyword arguments remain (\<open>nkwargs\<close> counts those
  not yet consumed). A converted value is written through the output pointer at once:
  \<open>out\<close> holds what has been written so far, \<open>None\<close> for a pointer not written to.
  The loop leaves with a conversion error, with success as soon as neither positional
  nor keyword arguments remain, or at the end of the parameter list.
\<close>

datatype loop_exit = Failed py_error | Succeeded | Finished nat

fun convert_args ::
  "pyobj list \<Rightarrow> (string \<times> pyobj) list \<Rightarrow> nat \<Rightarrow> nat \<Rightarrow> (fmt_unit \<times> string) list \<Rightarrow>
   cval option list \<Rightarrow> cval option list \<times> loop_exit" where
  "convert_args args kwds i nkwargs [] out = (out, Finished nkwargs)"
| "convert_args args kwds i nkwargs ((u, kw) # rest) out =
     (if i < length args then
        (case convertitem (args ! i) u of
           Inl e \<Rightarrow> (out, Failed e)
         | Inr c \<Rightarrow> convert_args args kwds (Suc i) nkwargs rest (out[i := Some c]))
      else if nkwargs \<noteq> 0 then
        (case map_of kwds kw of
           Some a \<Rightarrow>
             (case convertitem a u of
                Inl e \<Rightarrow> (out, Failed e)
              | Inr c \<Rightarrow> convert_args args kwds (Suc i) (nkwargs - 1) rest (out[i := Some c]))
         | None \<Rightarrow> convert_args args kwds (Suc i) nkwargs rest out)
      else (out, Succeeded))"

text \<open>
  When keyword arguments are left over after the loop, the parser reports the first
  parameter given both by position and by name, or else the first keyword that names no
  parameter.
\<close>

definition keyword_error :: "pyobj list \<Rightarrow> (string \<times> pyobj) list \<Rightarrow> string list \<Rightarrow> py_error" where
  "keyword_error args kwds kwlist =
     (case find (\<lambda>k. map_of kwds k \<noteq> None) (take (length args) kwlist) of
        Some k \<Rightarrow> GivenByNameAndPosition k
      | None \<Rightarrow>
          (case find (\<lambda>k. k \<notin> set kwlist) (map fst kwds) of
             Some k \<Rightarrow> InvalidKeyword k
           | None \<Rightarrow> InvalidKeywordUnknown))"

text \<open>
  The result is the list of values written through the output pointers and the exception
  raised, if any (\<open>None\<close>: the parser returned true). On failure the values already
  written stay written.
\<close>

definition PyArg_ParseTupleAndKeywords ::
  "pyobj list \<Rightarrow> (string \<times> pyobj) list \<Rightarrow> fmt_unit list \<Rightarrow> string list \<Rightarrow>
   cval option list \<times> py_error option" where
  "PyArg_ParseTupleAndKeywords args kwds fmt kwlist =
     (let len = length kwlist;
          nargs = length args;
          nkwargs = dict_size kwds;
          out0 = replicate len None
      in if nargs + nkwargs > len then (out0, Some (TooManyArguments len (nargs + nkwargs)))
         else
           (case convert_args args kwds 0 nkwargs (zip fmt kwlist) out0 of
              (out, Failed e) \<Rightarrow> (out, Some e)
            | (out, Succeeded) \<Rightarrow> (out, None)
            | (out, Finished n) \<Rightarrow>
                if n > 0 then (out, Some (keyword_error args kwds kwlist)) else (out, None)))"

subsection \<open>Allocation and initialisation\<close>

text \<open>
  \<^verbatim>\<open>Person_new\<close> allocates the object and its two default names and ignores its
  arguments. The parameter \<open>mem\<close> is the number of objects the allocator can still
  provide: each of \<^verbatim>\<open>tp_alloc\<close> and the two calls of \<^verbatim>\<open>PyUnicode_FromString\<close>
  takes one and returns \<^verbatim>\<open>NULL\<close> when none is left.
\<close>

definition Person_new :: "nat \<Rightarrow> pyobj list \<Rightarrow> (string \<times> pyobj) list \<Rightarrow> py_error + Person" where
  "Person_new mem args kwds =
     (if mem < 1 then Inl NoMemory
      else if mem < 2 then Inl NoMemory
      else if mem < 3 then Inl NoMemory
      else Inr \<lparr>first_name = Some (PyUnicode ''John''),
                last_name = Some (PyUnicode ''Doe''),
                number = 42\<rparr>)"

definition kwlist :: "string list" where
  "kwlist = [''first_name'', ''last_name'', ''number'']"

text \<open>
  \<^verbatim>\<open>Person_init\<close>. The parser writes the two names to local variables that start as
  \<^verbatim>\<open>NULL\<close>, and the number straight into \<^verbatim>\<open>self->number\<close>. When the parser fails the
  function returns -1 at once; otherwise each name that was given replaces the field.
  The result is the record after the call and the exception raised, if any.
\<close>

definition Person_init ::
  "Person \<Rightarrow> pyobj list \<Rightarrow> (string \<times> pyobj) list \<Rightarrow> Person \<times> py_error option" where
  "Person_init self args kwds =
     (case PyArg_ParseTupleAndKeywords args kwds [Fmt_O, Fmt_O, Fmt_i] kwlist of
        (out, r) \<Rightarrow>
          let self1 = (case out ! 2 of Some (CInt n) \<Rightarrow> self\<lparr>number := n\<rparr> | _ \<Rightarrow> self)
          in (case r of
                Some e \<Rightarrow> (self1, Some e)
              | None \<Rightarrow>
                  let self2 = (case out ! 0 of
                                 Some (CObject v) \<Rightarrow> self1\<lparr>first_name := Some v\<rparr>
                               | _ \<Rightarrow> self1);
                      self3 = (case out ! 1 of
                                 Some (CObject v) \<Rightarrow> self2\<lparr>last_name := Some v\<rparr>
                               | _ \<Rightarrow> self2)
                  in (self3, None)))"

text \<open>
  Calling the type (\<^verbatim>\<open>Person(...)\<close>) is CPython's \<^verbatim>\<open>type_call\<close>: \<^verbatim>\<open>tp_new\<close>, then
  \<^verbatim>\<open>tp_init\<close> on the new object with the same arguments; when \<^verbatim>\<open>tp_init\<close> fails the
  object is released and the exception is raised to the caller.
\<close>

definition Person_call :: "nat \<Rightarrow> pyobj list \<Rightarrow> (string \<times> pyobj) list \<Rightarrow> py_error + Person" where
  "Person_call mem args kwds =
     (case Person_new mem args kwds of
        Inl e \<Rightarrow> Inl e
      | Inr obj \<Rightarrow>
          (case Person_init obj args kwds of
             (obj', Some e) \<Rightarrow> Inl e
           | (obj', None) \<Rightarrow> Inr obj'))"

subsection \<open>Text conversion\<close>

text \<open>
  Decimal digits of a number, as \<^verbatim>\<open>%d\<close> prints a C \<^verbatim>\<open>int\<close> and as \<^verbatim>\<open>str\<close>
  prints a Python \<^verbatim>\<open>int\<close>.
\<close>

definition digit :: "nat \<Rightarrow> char" where
  "digit d = ''0123456789'' ! d"

fun dec_nat :: "nat \<Rightarrow> string" where
  "dec_nat n = (if n < 10 then [digit n] else dec_nat (n div 10) @ [digit (n mod 10)])"

declare dec_nat.simps [simp del]

definition dec_int :: "int \<Rightarrow> string" where
  "dec_int i = (if i < 0 then CHR ''-'' # dec_nat (nat (- i)) else dec_nat (nat i))"

text \<open>\<^verbatim>\<open>str(v)\<close> for the values of the model.\<close>

fun py_str :: "pyobj \<Rightarrow> string" where
  "py_str (PyUnicode s) = s"
| "py_str (PyLong n) = dec_int n"
| "py_str (PyBool b) = (if b then ''True'' else ''False'')"
| "py_str PyNone = ''None''"

text \<open>\<^verbatim>\<open>PyObject_Str\<close>, which renders a \<^verbatim>\<open>NULL\<close> pointer as \<^verbatim>\<open><NULL>\<close>.\<close>

fun PyObject_Str :: "pyobj option \<Rightarrow> string" where
  "PyObject_Str None = ''<NULL>''"
| "PyObject_Str (Some v) = py_str v"

text \<open>
  \<^verbatim>\<open>PyUnicode_FromFormat\<close> with the two directives the code uses: \<^verbatim>\<open>%S\<close> takes an
  object pointer and inserts its \<^verbatim>\<open>str\<close>, \<^verbatim>\<open>%d\<close> takes a C \<^verbatim>\<open>int\<close> and inserts
  it in decimal. Any other directive, or an argument of the other kind, is outside the model and
  reported as \<open>BadFormat\<close>.
\<close>

datatype fmt_arg = ArgObj "pyobj option" | ArgInt "32 word"

fun PyUnicode_FromFormat :: "string \<Rightarrow> fmt_arg list \<Rightarrow> py_error + string" where
  "PyUnicode_FromFormat [] va = Inr []"
| "PyUnicode_FromFormat [c] va = (if c = CHR ''%'' then Inl BadFormat else Inr [c])"
| "PyUnicode_FromFormat (c # d # fmt) va =
     (if c \<noteq> CHR ''%'' then map_sum id ((#) c) (PyUnicode_FromFormat (d # fmt) va)
      else if d = CHR ''S'' then
        (case va of
           ArgObj v # va' \<Rightarrow> map_sum id ((@) (PyObject_Str v)) (PyUnicode_FromFormat fmt va')
         | _ \<Rightarrow> Inl BadFormat)
      else if d = CHR ''d'' then
        (case va of
           ArgInt n # va' \<Rightarrow> map_sum id ((@) (dec_int (sint n))) (PyUnicode_FromFormat fmt va')
         | _ \<Rightarrow> Inl BadFormat)
      else Inl BadFormat)"

text \<open>\<^verbatim>\<open>Person_str\<close>, the \<^verbatim>\<open>tp_str\<close> slot of the type.\<close>

definition Person_str :: "Person \<Rightarrow> py_error + pyobj" where
  "Person_str self =
     map_sum id PyUnicode
       (PyUnicode_FromFormat ''Person(first_name=%S, last_name=%S, number=%d)''
          [ArgObj (first_name self), ArgObj (last_name self), ArgInt (number self)])"

subsection \<open>The method name()\<close>

definition Person_name :: "Person \<Rightarrow> py_error + pyobj" where
  "Person_name self =
     (if first_name self = None then Inl (MissingAttribute ''first_name'')
      else if last_name self = None then Inl (MissingAttribute ''last_name'')
      else map_sum id PyUnicode
             (PyUnicode_FromFormat ''%S %S''
                [ArgObj (first_name self), ArgObj (last_name self)]))"

subsection \<open>Members\<close>

text \<open>
  The table \<^verbatim>\<open>Person_members\<close> has three entries. An entry gives the attribute's name
  and its type together with the field of the struct at its offset: \<^verbatim>\<open>T_OBJECT_EX\<close>
  for the two object pointers, \<^verbatim>\<open>T_INT\<close> for the C \<^verbatim>\<open>int\<close>. All have
  \<^verbatim>\<open>flags = 0\<close>, so none is read-only.
\<close>

datatype obj_field = Off_first_name | Off_last_name
datatype int_field = Off_number

datatype member_type = T_OBJECT_EX obj_field | T_INT int_field

datatype member = Member_first_name | Member_last_name | Member_number

fun Person_members :: "member \<Rightarrow> string \<times> member_type" where
  "Person_members Member_first_name = (''first_name'', T_OBJECT_EX Off_first_name)"
| "Person_members Member_last_name = (''last_name'', T_OBJECT_EX Off_last_name)"
| "Person_members Member_number = (''number'', T_INT Off_number)"

fun load_obj :: "Person \<Rightarrow> obj_field \<Rightarrow> pyobj option" where
  "load_obj p Off_first_name = first_name p"
| "load_obj p Off_last_name = last_name p"

fun store_obj :: "Person \<Rightarrow> obj_field \<Rightarrow> pyobj option \<Rightarrow> Person" where
  "store_obj p Off_first_name v = p\<lparr>first_name := v\<rparr>"
| "store_obj p Off_last_name v = p\<lparr>last_name := v\<rparr>"

fun load_int :: "Person \<Rightarrow> int_field \<Rightarrow> 32 word" where
  "load_int p Off_number = number p"

fun store_int :: "Person \<Rightarrow> int_field \<Rightarrow> 32 word \<Rightarrow> Person" where
  "store_int p Off_number w = p\<lparr>number := w\<rparr>"

text \<open>
  \<^verbatim>\<open>PyMember_GetOne\<close>, which reads an attribute: a \<^verbatim>\<open>T_OBJECT_EX\<close> member whose
  pointer is \<^verbatim>\<open>NULL\<close> raises \<^verbatim>\<open>AttributeError\<close>; a \<^verbatim>\<open>T_INT\<close> member is
  returned as a Python \<^verbatim>\<open>int\<close>.
\<close>

fun PyMember_GetOne :: "Person \<Rightarrow> string \<times> member_type \<Rightarrow> py_error + pyobj" where
  "PyMember_GetOne p (nm, T_OBJECT_EX f) =
     (case load_obj p f of None \<Rightarrow> Inl (MissingAttribute nm) | Some v \<Rightarrow> Inr v)"
| "PyMember_GetOne p (nm, T_INT f) = Inr (PyLong (sint (load_int p f)))"

text \<open>
  \<^verbatim>\<open>PyMember_SetOne\<close>, which assigns an attribute (\<open>Some v\<close>) or deletes it
  (\<open>None\<close>, the \<^verbatim>\<open>NULL\<close> value of \<^verbatim>\<open>del p.attr\<close>). A \<^verbatim>\<open>T_OBJECT_EX\<close> member
  takes any object, and its deletion stores \<^verbatim>\<open>NULL\<close> unless it is \<^verbatim>\<open>NULL\<close>
  already. A \<^verbatim>\<open>T_INT\<close> member cannot be deleted; it is assigned the value of
  \<^verbatim>\<open>PyLong_AsLong\<close> cast to \<^verbatim>\<open>int\<close>, and a value beyond the range of \<^verbatim>\<open>int\<close>
  is truncated (CPython issues a \<^verbatim>\<open>RuntimeWarning\<close> then, which is no exception
  under the default warning filter).
\<close>

fun PyMember_SetOne :: "Person \<Rightarrow> string \<times> member_type \<Rightarrow> pyobj option \<Rightarrow> py_error + Person" where
  "PyMember_SetOne p (nm, T_OBJECT_EX f) v =
     (if v = None \<and> load_obj p f = None then Inl (MissingAttribute nm)
      else Inr (store_obj p f v))"
| "PyMember_SetOne p (nm, T_INT f) v =
     (case v of
        None \<Rightarrow> Inl CannotDeleteNumeric
      | Some x \<Rightarrow>
          (case PyLong_AsLong x of
             Inl e \<Rightarrow> Inl e
           | Inr long_val \<Rightarrow> Inr (store_int p f (word_of_int long_val))))"

definition Person_getattr :: "Person \<Rightarrow> member \<Rightarrow> py_error + pyobj" where
  "Person_getattr p m = PyMember_GetOne p (Person_members m)"

definition Person_setattr :: "Person \<Rightarrow> member \<Rightarrow> pyobj \<Rightarrow> py_error + Person" where
  "Person_setattr p m v = PyMember_SetOne p (Person_members m) (Some v)"

definition Person_delattr :: "Person \<Rightarrow> member \<Rightarrow> py_error + Person" where
  "Person_delattr p m = PyMember_SetOne p (Person_members m) None"

subsection \<open>Sequences of operations\<close>

text \<open>
  The operations a caller can apply to a record after its construction, and the record
  each leaves behind. Reading a member, \<^verbatim>\<open>name()\<close> and \<^verbatim>\<open>str\<close> only read the
  struct. An operation that raises leaves the caller with the record as the operation
  left it.
\<close>

datatype operation =
    Read member
  | Write member pyobj
  | Delete member
  | Call_name
  | Call_str
  | Call_init "pyobj list" "(string \<times> pyobj) list"

fun apply_op :: "Person \<Rightarrow> operation \<Rightarrow> Person" where
  "apply_op p (Read m) = p"
| "apply_op p (Write m v) = (case Person_setattr p m v of Inl e \<Rightarrow> p | Inr p' \<Rightarrow> p')"
| "apply_op p (Delete m) = (case Person_delattr p m of Inl e \<Rightarrow> p | Inr p' \<Rightarrow> p')"
| "apply_op p Call_name = p"
| "apply_op p Call_str = p"
| "apply_op p (Call_init args kwds) = fst (Person_init p args kwds)"

fun run :: "Person \<Rightarrow> operation list \<Rightarrow> Person" where
  "run p [] = p"
| "run p (x # xs) = run (apply_op p x) xs"

fun name_deletion :: "operation \<Rightarrow> bool" where
  "name_deletion (Delete Member_first_name) = True"
| "name_deletion (Delete Member_last_name) = True"
| "name_deletion _ = False"

text \<open>The values an operation hands to the record.\<close>

fun op_values :: "operation \<Rightarrow> pyobj set" where
  "op_values (Write m v) = {v}"
| "op_values (Call_init args kwds) = set args \<union> snd ` set kwds"
| "op_values _ = {}"

subsection \<open>Calls and the values they supply\<close>

text \<open>
  The value a call supplies for parameter \<open>i\<close> (0: first name, 1: last name, 2: number):
  the positional argument at \<open>i\<close>, or else the keyword argument named \<open>kwlist ! i\<close>.
\<close>

definition supplied :: "pyobj list \<Rightarrow> (string \<times> pyobj) list \<Rightarrow> nat \<Rightarrow> pyobj option" where
  "supplied args kwds i = (if i < length args then Some (args ! i) else map_of kwds (kwlist ! i))"

text \<open>
  A call passes a subset of the three parameters when it has at most three positional
  arguments and every keyword names a parameter that is not given by position.
\<close>

definition subset_call :: "pyobj list \<Rightarrow> (string \<times> pyobj) list \<Rightarrow> bool" where
  "subset_call args kwds \<longleftrightarrow>
     length args \<le> 3 \<and> list_all (\<lambda>k. k \<in> set (drop (length args) kwlist)) (map fst kwds)"

text \<open>An integer object and its value; the integers a C \<^verbatim>\<open>int\<close> holds.\<close>

fun int_value :: "pyobj \<Rightarrow> int option" where
  "int_value (PyLong n) = Some n"
| "int_value (PyBool b) = Some (if b then 1 else 0)"
| "int_value _ = None"

fun is_text :: "pyobj \<Rightarrow> bool" where
  "is_text (PyUnicode s) = True"
| "is_text _ = False"

definition fits_int :: "pyobj \<Rightarrow> bool" where
  "fits_int v = (case int_value v of None \<Rightarrow> False | Some n \<Rightarrow> INT_MIN \<le> n \<and> n \<le> INT_MAX)"

definition fits_long :: "pyobj \<Rightarrow> bool" where
  "fits_long v = (case int_value v of None \<Rightarrow> False | Some n \<Rightarrow> LONG_MIN \<le> n \<and> n \<le> LONG_MAX)"

text \<open>
  The exceptions of the parser's check of the keyword arguments, which runs after the
  conversions.
\<close>

fun keyword_failure :: "py_error \<Rightarrow> bool" where
  "keyword_failure (GivenByNameAndPosition k) = True"
| "keyword_failure (InvalidKeyword k) = True"
| "keyword_failure InvalidKeywordUnknown = True"
| "keyword_failure _ = False"

text \<open>
  Both names are set, each to its default or to one of the values \<open>V\<close> that callers
  have supplied.
\<close>

definition names_from :: "pyobj set \<Rightarrow> Person \<Rightarrow> bool" where
  "names_from V p \<longleftrightarrow>
     (\<exists>a. first_name p = Some a \<and> (a = PyUnicode ''John'' \<or> a \<in> V)) \<and>
     (\<exists>b. last_name p = Some b \<and> (b = PyUnicode ''Doe'' \<or> b \<in> V))"

text \<open>Whether the keyword arguments hold the key \<open>k\<close>, as a count (0 or 1).\<close>

definition given :: "(string \<times> pyobj) list \<Rightarrow> string \<Rightarrow> nat" where
  "given kwds k = (if map_of kwds k = None then 0 else 1)"

text \<open>Reading a string of decimal digits back, to state what base 10 means.\<close>

definition digit_value :: "char \<Rightarrow> nat" where
  "digit_value c = of_char c - 48"

definition dec_value :: "string \<Rightarrow> nat" where
  "dec_value s = foldl (\<lambda>acc c. 10 * acc + digit_value c) 0 s"

section \<open>Properties\<close>

subsection \<open>Auxiliary facts\<close>

lemma dict_size_card: "dict_size kwds = card (dom (map_of kwds))"
  by (simp add: dict_size_def length_remdups_card_conv dom_map_of_conv_image_fst)

lemma dom_sub3:
  assumes "dom m \<subseteq> {a, b, c}" "a \<noteq> b" "a \<noteq> c" "b \<noteq> c"
  shows "card (dom m) = (if m a = None then 0 else 1) + (if m b = None then 0 else 1) + (if m c = None then (0::nat) else 1)"
proof -
  have "dom m = (if m a = None then {} else {a}) \<union> (if m b = None then {} else {b}) \<union> (if m c = None then {} else {c})"
    using assms(1) by (auto simp: dom_def split: if_splits)
  then show ?thesis using assms(2-) by (auto split: if_splits)
qed

lemma dict_size_kwlist:
  assumes "set (map fst kwds) \<subseteq> set kwlist"
  shows "dict_size kwds = given kwds ''first_name'' + given kwds ''last_name'' + given kwds ''number''"
proof -
  have "dom (map_of kwds) \<subseteq> {''first_name'', ''last_name'', ''number''}"
    using assms by (auto simp: dom_map_of_conv_image_fst kwlist_def)
  then show ?thesis unfolding dict_size_card given_def
    by (rule dom_sub3) simp_all
qed

lemma subset_call_keys:
  assumes "subset_call args kwds"
  shows "set (map fst kwds) \<subseteq> set kwlist" and "i < length args \<Longrightarrow> i < 3 \<Longrightarrow> map_of kwds (kwlist ! i) = None"
proof -
  have sub: "set (map fst kwds) \<subseteq> set (drop (length args) kwlist)"
    using assms by (auto simp: subset_call_def list_all_iff)
  then show "set (map fst kwds) \<subseteq> set kwlist" using set_drop_subset by fastforce
  assume "i < length args" "i < 3"
  have "kwlist ! i \<notin> set (drop (length args) kwlist)"
  proof -
    have "distinct kwlist" by (simp add: kwlist_def)
    moreover have "kwlist = take (length args) kwlist @ drop (length args) kwlist" by simp
    moreover have "kwlist ! i \<in> set (take (length args) kwlist)"
      using \<open>i < length args\<close> \<open>i < 3\<close> by (auto simp: in_set_conv_nth kwlist_def intro!: exI[of _ i])
    ultimately show ?thesis
      by (metis distinct_append disjoint_iff)
  qed
  then have "kwlist ! i \<notin> fst ` set kwds" using sub by auto
  then show "map_of kwds (kwlist ! i) = None" by (simp add: map_of_eq_None_iff)
qed

lemma args_cases:
  assumes "length (args :: 'a list) \<le> 3"
  obtains "args = []" | a where "args = [a]" | a b where "args = [a, b]" | a b c where "args = [a, b, c]"
proof (cases args)
  case Nil then show ?thesis using that by simp
next
  case (Cons a as)
  note A = this
  show ?thesis
  proof (cases as)
    case Nil then show ?thesis using that A by simp
  next
    case (Cons b bs)
    note B = this
    show ?thesis
    proof (cases bs)
      case Nil then show ?thesis using that A B by simp
    next
      case (Cons c cs)
      then have "cs = []" using assms A B by simp
      then show ?thesis using that A B Cons by simp
    qed
  qed
qed

lemma convertitem_fits:
  "fits_int v \<Longrightarrow> convertitem v Fmt_i = Inr (CInt (word_of_int (the (int_value v))))"
  by (cases v) (auto simp: fits_int_def INT_MAX_def INT_MIN_def LONG_MAX_def LONG_MIN_def)

lemma parse_subset_call:
  assumes sc: "subset_call args kwds"
    and fit: "\<forall>v. supplied args kwds 2 = Some v \<longrightarrow> fits_int v"
  shows "PyArg_ParseTupleAndKeywords args kwds [Fmt_O, Fmt_O, Fmt_i] kwlist =
           ([map_option CObject (supplied args kwds 0),
             map_option CObject (supplied args kwds 1),
             map_option (\<lambda>v. CInt (word_of_int (the (int_value v)))) (supplied args kwds 2)], None)"
proof -
  have len: "length args \<le> 3" using sc by (simp add: subset_call_def)
  note keys = subset_call_keys [OF sc]
  note size = dict_size_kwlist [OF keys(1)]
  from len show ?thesis
  proof (cases args rule: args_cases)
    case 1
    with fit have "\<forall>v. map_of kwds ''number'' = Some v \<longrightarrow> fits_int v"
      by (simp add: supplied_def kwlist_def)
    with 1 size show ?thesis
      by (auto simp: PyArg_ParseTupleAndKeywords_def supplied_def kwlist_def given_def
            convertitem_fits Let_def simp del: convertitem.simps(2) split: option.splits)
  next
    case (2 a)
    with keys(2) [of 0] have "map_of kwds ''first_name'' = None" by (simp add: kwlist_def)
    moreover from 2 fit have "\<forall>v. map_of kwds ''number'' = Some v \<longrightarrow> fits_int v"
      by (simp add: supplied_def kwlist_def)
    ultimately show ?thesis using 2 size
      by (auto simp: PyArg_ParseTupleAndKeywords_def supplied_def kwlist_def given_def
            convertitem_fits Let_def simp del: convertitem.simps(2) split: option.splits)
  next
    case (3 a b)
    with keys(2) [of 0] keys(2) [of 1]
    have "map_of kwds ''first_name'' = None" "map_of kwds ''last_name'' = None"
      by (simp_all add: kwlist_def)
    moreover from 3 fit have "\<forall>v. map_of kwds ''number'' = Some v \<longrightarrow> fits_int v"
      by (simp add: supplied_def kwlist_def)
    ultimately show ?thesis using 3 size
      by (auto simp: PyArg_ParseTupleAndKeywords_def supplied_def kwlist_def given_def
            convertitem_fits Let_def simp del: convertitem.simps(2) split: option.splits)
  next
    case (4 a b c)
    with keys(2) [of 0] keys(2) [of 1] keys(2) [of 2]
    have "map_of kwds ''first_name'' = None" "map_of kwds ''last_name'' = None"
      "map_of kwds ''number'' = None"
      by (simp_all add: kwlist_def)
    moreover from 4 fit have "fits_int c"
      by (simp add: supplied_def kwlist_def)
    ultimately show ?thesis using 4 size
      by (auto simp: PyArg_ParseTupleAndKeywords_def supplied_def kwlist_def given_def
            convertitem_fits Let_def simp del: convertitem.simps(2) split: option.splits)
  qed
qed

lemma keyword_failure_keyword_error: "keyword_failure (keyword_error args kwds kl)"
  by (simp add: keyword_error_def split: option.splits)

lemma parse_fail_number:
  assumes "PyArg_ParseTupleAndKeywords args kwds [Fmt_O, Fmt_O, Fmt_i] kwlist = (out, Some e)"
    and "out ! 2 = Some c"
  shows "keyword_failure e"
  using assms
  by (auto simp: PyArg_ParseTupleAndKeywords_def kwlist_def Let_def keyword_failure_keyword_error
        simp del: convertitem.simps(2)
        split: if_splits option.splits sum.splits prod.splits loop_exit.splits)

lemma parse_slots:
  assumes parse: "PyArg_ParseTupleAndKeywords args kwds [Fmt_O, Fmt_O, Fmt_i] kwlist = (out, r)"
    and kw: "\<And>k v. map_of kwds k = Some v \<Longrightarrow> P v"
    and pos: "\<And>i. i < length args \<Longrightarrow> P (args ! i)"
  shows "(out ! 0 = None \<or> (\<exists>v. out ! 0 = Some (CObject v) \<and> P v))
       \<and> (out ! 1 = None \<or> (\<exists>v. out ! 1 = Some (CObject v) \<and> P v))"
  using parse
  by (auto simp: PyArg_ParseTupleAndKeywords_def kwlist_def Let_def pos
        simp del: convertitem.simps(2)
        dest: kw
        split: if_splits option.splits sum.splits prod.splits loop_exit.splits)

lemma map_of_value: "map_of kwds k = Some v \<Longrightarrow> v \<in> snd ` set kwds"
  by (force dest: map_of_SomeD)

lemma sint_in_range:
  "INT_MIN \<le> n \<Longrightarrow> n \<le> INT_MAX \<Longrightarrow> sint (word_of_int n :: 32 word) = n"
  by (simp add: INT_MIN_def INT_MAX_def sint_sbintrunc' signed_take_bit_int_eq_self)

lemma fits_intE:
  assumes "fits_int v"
  obtains n where "int_value v = Some n" and "INT_MIN \<le> n" and "n \<le> INT_MAX"
    and "sint (word_of_int n :: 32 word) = n"
  using assms by (auto simp: fits_int_def sint_in_range split: option.splits)

lemma given_le_dict_size:
  "given kwds ''first_name'' + given kwds ''last_name'' + given kwds ''number'' \<le> dict_size kwds"
proof -
  let ?m = "map_of kwds"
  let ?S = "(if ?m ''first_name'' = None then {} else {''first_name''}) \<union>
            (if ?m ''last_name'' = None then {} else {''last_name''}) \<union>
            (if ?m ''number'' = None then {} else {''number''})"
  have "?S \<subseteq> dom ?m" by (auto split: if_splits)
  moreover have "finite (dom ?m)" by (rule finite_dom_map_of)
  ultimately have "card ?S \<le> card (dom ?m)" by (rule card_mono [rotated])
  moreover have "card ?S = given kwds ''first_name'' + given kwds ''last_name'' + given kwds ''number''"
    by (simp add: given_def)
  ultimately show ?thesis by (simp add: dict_size_card)
qed

lemma convertitem_not_int: "int_value v = None \<Longrightarrow> convertitem v Fmt_i = Inl NotAnInteger"
  by (cases v) simp_all

lemma parse_number_not_int:
  assumes count: "length args + dict_size kwds \<le> 3"
    and sup: "supplied args kwds 2 = Some v" and v: "int_value v = None"
  shows "\<exists>out. PyArg_ParseTupleAndKeywords args kwds [Fmt_O, Fmt_O, Fmt_i] kwlist = (out, Some NotAnInteger)
           \<and> out ! 2 = None"
proof -
  note conv = convertitem_not_int [OF v]
  note size = given_le_dict_size [of kwds, unfolded given_def]
  from count have "length args \<le> 3" by simp
  then show ?thesis
  proof (cases args rule: args_cases)
    case 1
    with sup have "map_of kwds ''number'' = Some v" by (simp add: supplied_def kwlist_def)
    with 1 count size conv show ?thesis
      by (auto simp: PyArg_ParseTupleAndKeywords_def kwlist_def Let_def
            simp del: convertitem.simps(2) split: option.splits if_splits)
  next
    case (2 a)
    with sup have "map_of kwds ''number'' = Some v" by (simp add: supplied_def kwlist_def)
    with 2 count size conv show ?thesis
      by (auto simp: PyArg_ParseTupleAndKeywords_def kwlist_def Let_def
            simp del: convertitem.simps(2) split: option.splits if_splits)
  next
    case (3 a b)
    with sup have "map_of kwds ''number'' = Some v" by (simp add: supplied_def kwlist_def)
    with 3 count size conv show ?thesis
      by (auto simp: PyArg_ParseTupleAndKeywords_def kwlist_def Let_def
            simp del: convertitem.simps(2) split: option.splits if_splits)
  next
    case (4 a b c)
    with sup have "c = v" by (simp add: supplied_def kwlist_def)
    with 4 count conv show ?thesis
      by (auto simp: PyArg_ParseTupleAndKeywords_def kwlist_def Let_def
            simp del: convertitem.simps(2) split: option.splits if_splits)
  qed
qed

text \<open>Initialisation with a subset of the parameters, each of its own type.\<close>

lemma init_subset_call:
  assumes "subset_call args kwds"
    and "\<forall>v. supplied args kwds 2 = Some v \<longrightarrow> fits_int v"
  shows "Person_init p args kwds =
           (\<lparr>first_name = (case supplied args kwds 0 of None \<Rightarrow> first_name p | Some v \<Rightarrow> Some v),
             last_name = (case supplied args kwds 1 of None \<Rightarrow> last_name p | Some v \<Rightarrow> Some v),
             number = (case supplied args kwds 2 of
                         None \<Rightarrow> number p
                       | Some v \<Rightarrow> word_of_int (the (int_value v)))\<rparr>, None)"
  by (simp add: Person_init_def parse_subset_call [OF assms] split: option.splits)

lemma init_failure_names:
  "Person_init p args kwds = (p', Some e) \<Longrightarrow>
     first_name p' = first_name p \<and> last_name p' = last_name p"
  by (auto simp: Person_init_def Let_def split: prod.splits option.splits cval.splits)

lemma init_failure_number:
  assumes "Person_init p args kwds = (p', Some e)" and "number p' \<noteq> number p"
  shows "keyword_failure e"
proof -
  obtain out r where parse: "PyArg_ParseTupleAndKeywords args kwds [Fmt_O, Fmt_O, Fmt_i] kwlist = (out, r)"
    by (cases "PyArg_ParseTupleAndKeywords args kwds [Fmt_O, Fmt_O, Fmt_i] kwlist")
  with assms have "r = Some e" and "\<exists>c. out ! 2 = Some c"
    by (auto simp: Person_init_def Let_def split: option.splits cval.splits)
  with parse show ?thesis using parse_fail_number by blast
qed

lemma init_names:
  assumes init: "Person_init p args kwds = (p', r)"
    and kw: "\<And>k v. map_of kwds k = Some v \<Longrightarrow> P v"
    and pos: "\<And>i. i < length args \<Longrightarrow> P (args ! i)"
  shows "(first_name p' = first_name p \<or> (\<exists>v. first_name p' = Some v \<and> P v))
       \<and> (last_name p' = last_name p \<or> (\<exists>v. last_name p' = Some v \<and> P v))"
proof -
  obtain out r' where parse: "PyArg_ParseTupleAndKeywords args kwds [Fmt_O, Fmt_O, Fmt_i] kwlist = (out, r')"
    by (cases "PyArg_ParseTupleAndKeywords args kwds [Fmt_O, Fmt_O, Fmt_i] kwlist")
  have slots: "(out ! 0 = None \<or> (\<exists>v. out ! 0 = Some (CObject v) \<and> P v))
       \<and> (out ! 1 = None \<or> (\<exists>v. out ! 1 = Some (CObject v) \<and> P v))"
    using parse_slots [of args kwds out r' P, OF parse] kw pos by blast
  with init parse show ?thesis
    by (auto simp: Person_init_def Let_def split: option.splits cval.splits)
qed

lemma init_names_from:
  assumes "Person_init p args kwds = (p', r)" and "names_from V p"
    and "set args \<union> snd ` set kwds \<subseteq> V"
  shows "names_from V p'"
proof -
  have "(first_name p' = first_name p \<or> (\<exists>v. first_name p' = Some v \<and> v \<in> V))
       \<and> (last_name p' = last_name p \<or> (\<exists>v. last_name p' = Some v \<and> v \<in> V))"
  proof (rule init_names [OF assms(1)])
    fix k v assume "map_of kwds k = Some v"
    then show "v \<in> V" using assms(3) map_of_value by fastforce
  next
    fix i assume "i < length args"
    then show "args ! i \<in> V" using assms(3) by auto
  qed
  with assms(2) show ?thesis unfolding names_from_def by metis
qed

lemma apply_op_names_from:
  assumes "names_from V p" and "\<not> name_deletion x" and "op_values x \<subseteq> V"
  shows "names_from V (apply_op p x)"
proof (cases x)
  case (Write m v)
  with assms show ?thesis
    by (cases m) (auto simp: Person_setattr_def names_from_def split: sum.splits)
next
  case (Delete m)
  with assms show ?thesis
    by (cases m) (auto simp: Person_delattr_def names_from_def split: sum.splits)
next
  case (Call_init args kwds)
  with assms show ?thesis
    using init_names_from [of p args kwds "fst (Person_init p args kwds)" "snd (Person_init p args kwds)" V]
    by simp
qed (use assms in simp_all)

lemma run_names_from:
  assumes "names_from V p" and "list_all (\<lambda>x. \<not> name_deletion x) ops"
    and "\<forall>x \<in> set ops. op_values x \<subseteq> V"
  shows "names_from V (run p ops)"
  using assms
proof (induction ops arbitrary: p)
  case Nil
  then show ?case by simp
next
  case (Cons x xs)
  then have "names_from V (apply_op p x)"
    by (simp add: apply_op_names_from)
  with Cons show ?case by simp
qed

lemma new_names_from: "Person_new mem args kwds = Inr p \<Longrightarrow> names_from V p"
  by (auto simp: Person_new_def names_from_def split: if_splits)

lemma call_names_from:
  assumes "Person_call mem args kwds = Inr p" and "set args \<union> snd ` set kwds \<subseteq> V"
  shows "names_from V p"
proof -
  from assms(1) obtain p0 where new: "Person_new mem args kwds = Inr p0"
    and init: "Person_init p0 args kwds = (p, None)"
    by (auto simp: Person_call_def split: sum.splits prod.splits option.splits)
  from new have "names_from V p0" by (rule new_names_from)
  with init assms(2) show ?thesis using init_names_from by blast
qed

lemma digit_value_digit: "d < 10 \<Longrightarrow> digit_value (digit d) = d"
proof -
  assume "d < 10"
  then have "d \<in> {0, 1, 2, 3, 4, 5, 6, 7, 8, 9}" by auto
  then show ?thesis
    by (auto simp: digit_value_def digit_def)
qed

lemma dec_value_snoc: "dec_value (s @ [c]) = 10 * dec_value s + digit_value c"
  by (simp add: dec_value_def)

lemma dec_value_dec_nat: "dec_value (dec_nat n) = n"
proof (induction n rule: dec_nat.induct)
  case (1 n)
  show ?case
  proof (cases "n < 10")
    case True
    then show ?thesis
      by (subst dec_nat.simps) (simp add: dec_value_def digit_value_digit)
  next
    case False
    with 1 have "dec_value (dec_nat (n div 10)) = n div 10" by simp
    with False show ?thesis
      by (subst dec_nat.simps) (simp add: dec_value_snoc digit_value_digit)
  qed
qed

subsection \<open>name()\<close>

text \<open>
  C8. When \<open>first_name\<close> is absent, \<open>name()\<close> raises an \<open>AttributeError\<close> that
  names \<open>first_name\<close>, whatever \<open>last_name\<close> is; when only \<open>last_name\<close> is absent, the
  error names \<open>last_name\<close>; when both are present no error is raised and the result is
  a text value.
\<close>

theorem name_missing_field:
  "(first_name p = None \<longrightarrow> Person_name p = Inl (MissingAttribute ''first_name'')) \<and>
   (first_name p \<noteq> None \<and> last_name p = None \<longrightarrow>
      Person_name p = Inl (MissingAttribute ''last_name'')) \<and>
   (first_name p \<noteq> None \<and> last_name p \<noteq> None \<longrightarrow> (\<exists>s. Person_name p = Inr (PyUnicode s))) \<and>
   exception_class (MissingAttribute f) = AttributeError"
  by (auto simp: Person_name_def)

theorem name_missing_field_witness:
  "Person_name \<lparr>first_name = None, last_name = None, number = 42\<rparr>
     = Inl (MissingAttribute ''first_name'') \<and>
   Person_name \<lparr>first_name = Some (PyUnicode ''Ada''), last_name = None, number = 42\<rparr>
     = Inl (MissingAttribute ''last_name'') \<and>
   (\<exists>s. Person_name \<lparr>first_name = Some (PyUnicode ''Ada''), last_name = Some PyNone, number = 42\<rparr>
     = Inr (PyUnicode s))"
  using name_missing_field [of "\<lparr>first_name = None, last_name = None, number = 42\<rparr>"]
    name_missing_field [of "\<lparr>first_name = Some (PyUnicode ''Ada''), last_name = None, number = 42\<rparr>"]
    name_missing_field [of "\<lparr>first_name = Some (PyUnicode ''Ada''), last_name = Some PyNone, number = 42\<rparr>"]
  by simp

text \<open>
  C3. For a record with both names present, \<open>name()\<close> returns the text of the first
  name, one space, and the text of the last name (\<open>py_str\<close> of a text value is the
  text itself).
\<close>

theorem name_joins_names:
  assumes "first_name p = Some a" and "last_name p = Some b"
  shows "Person_name p = Inr (PyUnicode (py_str a @ '' '' @ py_str b))"
  using assms by (simp add: Person_name_def)

theorem name_joins_names_witness:
  "Person_call 3 [] [] =
     Inr \<lparr>first_name = Some (PyUnicode ''John''), last_name = Some (PyUnicode ''Doe''), number = 42\<rparr> \<and>
   Person_setattr
     \<lparr>first_name = Some (PyUnicode ''John''), last_name = Some (PyUnicode ''Doe''), number = 42\<rparr>
     Member_first_name (PyUnicode ''Ada'') =
     Inr \<lparr>first_name = Some (PyUnicode ''Ada''), last_name = Some (PyUnicode ''Doe''), number = 42\<rparr> \<and>
   Person_name
     \<lparr>first_name = Some (PyUnicode ''Ada''), last_name = Some (PyUnicode ''Doe''), number = 42\<rparr> =
     Inr (PyUnicode ''Ada Doe'')"
  using name_joins_names
    [of "\<lparr>first_name = Some (PyUnicode ''Ada''), last_name = Some (PyUnicode ''Doe''), number = 42\<rparr>"
        "PyUnicode ''Ada''" "PyUnicode ''Doe''"]
  by (simp add: Person_call_def Person_new_def Person_init_def PyArg_ParseTupleAndKeywords_def
        dict_size_def kwlist_def Person_setattr_def)

subsection \<open>str\<close>

text \<open>
  C2. For every successfully constructed record both names are present and \<open>str\<close>
  returns \<open>Person(first_name=A, last_name=B, number=N)\<close>, where \<open>A\<close> and \<open>B\<close> are the
  \<open>str\<close> of the two names (a text value as it is) and \<open>N\<close> is the number in decimal:
  an optional minus sign and the decimal digits of its absolute value.
\<close>

theorem str_format:
  assumes "Person_call mem args kwds = Inr p"
  shows "\<exists>a b. first_name p = Some a \<and> last_name p = Some b \<and>
           Person_str p =
             Inr (PyUnicode (''Person(first_name='' @ py_str a @ '', last_name='' @ py_str b @
                             '', number='' @ dec_int (sint (number p)) @ '')'')) \<and>
           (\<forall>s. a = PyUnicode s \<longrightarrow> py_str a = s) \<and> (\<forall>s. b = PyUnicode s \<longrightarrow> py_str b = s) \<and>
           dec_int (sint (number p)) =
             (if sint (number p) < 0 then ''-'' else '''') @ dec_nat (nat \<bar>sint (number p)\<bar>) \<and>
           int (dec_value (dec_nat (nat \<bar>sint (number p)\<bar>))) = \<bar>sint (number p)\<bar>"
proof -
  from assms have "names_from UNIV p" by (rule call_names_from) simp
  then obtain a b where "first_name p = Some a" "last_name p = Some b"
    by (auto simp: names_from_def)
  then show ?thesis
    by (simp add: Person_str_def dec_int_def dec_value_dec_nat)
qed

theorem str_format_witness:
  "Person_call 3 []
     [(''first_name'', PyUnicode ''Isaac''), (''last_name'', PyUnicode ''Newton''),
      (''number'', PyLong 42)] =
     Inr \<lparr>first_name = Some (PyUnicode ''Isaac''), last_name = Some (PyUnicode ''Newton''),
          number = 42\<rparr> \<and>
   Person_str \<lparr>first_name = Some (PyUnicode ''Isaac''), last_name = Some (PyUnicode ''Newton''),
          number = 42\<rparr> =
     Inr (PyUnicode ''Person(first_name=Isaac, last_name=Newton, number=42)'')"
proof -
  have call: "Person_call 3 []
     [(''first_name'', PyUnicode ''Isaac''), (''last_name'', PyUnicode ''Newton''),
      (''number'', PyLong 42)] =
     Inr \<lparr>first_name = Some (PyUnicode ''Isaac''), last_name = Some (PyUnicode ''Newton''),
          number = 42\<rparr>"
    by (simp add: Person_call_def Person_new_def Person_init_def PyArg_ParseTupleAndKeywords_def
        dict_size_def kwlist_def INT_MAX_def INT_MIN_def LONG_MAX_def LONG_MIN_def)
  from str_format [OF call] show ?thesis
    using call by (simp add: dec_int_def dec_nat.simps digit_def)
qed

subsection \<open>Construction and initialisation\<close>

text \<open>
  C1, as amended. Constructing a record with any subset of the three parameters, by
  position or by keyword, where the number, if supplied, is an integer that a C \<open>int\<close>
  holds (from \<open>-2^31\<close> to \<open>2^31 - 1\<close>), succeeds when the allocations succeed. In
  the record every supplied field holds the supplied value and every omitted field its
  default: \<open>John\<close>, \<open>Doe\<close>, 42.
\<close>

theorem construct_subset_defaults:
  assumes "3 \<le> mem" and "subset_call args kwds"
    and "\<forall>v. supplied args kwds 2 = Some v \<longrightarrow> fits_int v"
  shows "\<exists>p. Person_call mem args kwds = Inr p \<and>
           first_name p = Some (case supplied args kwds 0 of None \<Rightarrow> PyUnicode ''John'' | Some v \<Rightarrow> v) \<and>
           last_name p = Some (case supplied args kwds 1 of None \<Rightarrow> PyUnicode ''Doe'' | Some v \<Rightarrow> v) \<and>
           (case supplied args kwds 2 of
              None \<Rightarrow> sint (number p) = 42
            | Some v \<Rightarrow> int_value v = Some (sint (number p)))"
proof -
  let ?p0 = "\<lparr>first_name = Some (PyUnicode ''John''), last_name = Some (PyUnicode ''Doe''),
              number = 42\<rparr>"
  have new: "Person_new mem args kwds = Inr ?p0"
    using assms(1) by (simp add: Person_new_def)
  note init = init_subset_call [OF assms(2,3), of ?p0]
  show ?thesis
  proof (cases "supplied args kwds 2")
    case None
    then show ?thesis
      by (simp add: Person_call_def new init split: option.splits)
  next
    case (Some v)
    with assms(3) have "fits_int v" by blast
    then obtain n where "int_value v = Some n" "sint (word_of_int n :: 32 word) = n"
      by (rule fits_intE)
    with Some show ?thesis
      by (simp add: Person_call_def new init split: option.splits)
  qed
qed

theorem construct_subset_defaults_witness:
  "(\<exists>p. Person_call 3 [] [] = Inr p \<and> first_name p = Some (PyUnicode ''John'') \<and>
        last_name p = Some (PyUnicode ''Doe'') \<and> sint (number p) = 42) \<and>
   (\<exists>p. Person_call 3 [] [(''number'', PyLong 7)] = Inr p \<and> first_name p = Some (PyUnicode ''John'') \<and>
        last_name p = Some (PyUnicode ''Doe'') \<and> Some 7 = Some (sint (number p))) \<and>
   (\<exists>p. Person_call 3 [PyUnicode ''Ada''] [(''number'', PyLong 7)] = Inr p \<and>
        first_name p = Some (PyUnicode ''Ada'') \<and>
        last_name p = Some (PyUnicode ''Doe'') \<and> Some 7 = Some (sint (number p)))"
  using construct_subset_defaults [of 3 "[]" "[]"]
    construct_subset_defaults [of 3 "[]" "[(''number'', PyLong 7)]"]
    construct_subset_defaults [of 3 "[PyUnicode ''Ada'']" "[(''number'', PyLong 7)]"]
  by (simp add: subset_call_def supplied_def kwlist_def fits_int_def INT_MAX_def INT_MIN_def)

text \<open>
  A number beyond the range of a C \<open>int\<close>: the call passes a subset of the parameters,
  the conversion raises an \<open>OverflowError\<close>, and the construction yields no record.
\<close>

theorem construct_number_out_of_range:
  "subset_call [PyUnicode ''Ada'', PyUnicode ''Lovelace''] [(''number'', PyLong (- 2147483649))] \<and>
   Person_call 3 [PyUnicode ''Ada'', PyUnicode ''Lovelace''] [(''number'', PyLong (- 2147483649))] =
     Inl IntTooSmall"
  by (simp add: subset_call_def Person_call_def Person_new_def Person_init_def
        PyArg_ParseTupleAndKeywords_def dict_size_def kwlist_def
        INT_MAX_def INT_MIN_def LONG_MAX_def LONG_MIN_def)

text \<open>
  C10, as amended. Initialising an existing record again with a subset of the
  parameters, where the number, if supplied, is an integer that a C \<open>int\<close> holds (from
  \<open>-2^31\<close> to \<open>2^31 - 1\<close>), succeeds, overwrites the supplied fields and leaves
  every omitted field with the value it had, not its default.
\<close>

theorem reinit_keeps_omitted:
  assumes "subset_call args kwds"
    and "\<forall>v. supplied args kwds 2 = Some v \<longrightarrow> fits_int v"
  shows "\<exists>p'. Person_init p args kwds = (p', None) \<and>
           first_name p' = (case supplied args kwds 0 of None \<Rightarrow> first_name p | Some v \<Rightarrow> Some v) \<and>
           last_name p' = (case supplied args kwds 1 of None \<Rightarrow> last_name p | Some v \<Rightarrow> Some v) \<and>
           (case supplied args kwds 2 of
              None \<Rightarrow> number p' = number p
            | Some v \<Rightarrow> int_value v = Some (sint (number p')))"
proof -
  show ?thesis
  proof (cases "supplied args kwds 2")
    case None
    then show ?thesis
      by (simp add: init_subset_call [OF assms, of p] split: option.splits)
  next
    case (Some v)
    with assms(2) have "fits_int v" by blast
    then obtain n where "int_value v = Some n" "sint (word_of_int n :: 32 word) = n"
      by (rule fits_intE)
    with Some show ?thesis
      by (simp add: init_subset_call [OF assms, of p] split: option.splits)
  qed
qed

theorem reinit_keeps_omitted_witness:
  "Person_setattr
     \<lparr>first_name = Some (PyUnicode ''John''), last_name = Some (PyUnicode ''Doe''), number = 42\<rparr>
     Member_first_name (PyUnicode ''Ada'') =
     Inr \<lparr>first_name = Some (PyUnicode ''Ada''), last_name = Some (PyUnicode ''Doe''), number = 42\<rparr> \<and>
   (\<exists>p'. Person_init
          \<lparr>first_name = Some (PyUnicode ''Ada''), last_name = Some (PyUnicode ''Doe''), number = 42\<rparr>
          [] [(''number'', PyLong 5)] = (p', None) \<and>
        first_name p' = Some (PyUnicode ''Ada'') \<and> last_name p' = Some (PyUnicode ''Doe'') \<and>
        Some 5 = Some (sint (number p')))"
  using reinit_keeps_omitted
    [of "[]" "[(''number'', PyLong 5)]"
        "\<lparr>first_name = Some (PyUnicode ''Ada''), last_name = Some (PyUnicode ''Doe''), number = 42\<rparr>"]
  by (simp add: subset_call_def supplied_def kwlist_def fits_int_def INT_MAX_def INT_MIN_def
        Person_setattr_def)

text \<open>
  Initialising again with a number beyond the range of a C \<open>int\<close>: the call fails and
  the supplied field is not overwritten.
\<close>

theorem reinit_number_out_of_range:
  "subset_call [] [(''number'', PyLong 2147483648)] \<and>
   Person_init
     \<lparr>first_name = Some (PyUnicode ''Ada''), last_name = Some (PyUnicode ''Doe''), number = 42\<rparr>
     [] [(''number'', PyLong 2147483648)] =
     (\<lparr>first_name = Some (PyUnicode ''Ada''), last_name = Some (PyUnicode ''Doe''), number = 42\<rparr>,
      Some IntTooLarge)"
  by (simp add: subset_call_def Person_init_def PyArg_ParseTupleAndKeywords_def dict_size_def
        kwlist_def INT_MAX_def INT_MIN_def LONG_MAX_def LONG_MIN_def)

text \<open>
  C9. A call with more than three positional arguments fails and yields no record: the
  parser rejects the number of arguments before it converts any, so \<open>Person_init\<close>
  leaves the record as it was and raises a \<open>TypeError\<close> for the arity.
\<close>

theorem too_many_positional:
  assumes "3 < length args"
  shows "(\<exists>e. Person_call mem args kwds = Inl e) \<and>
         (3 \<le> mem \<longrightarrow>
            Person_call mem args kwds = Inl (TooManyArguments 3 (length args + dict_size kwds))) \<and>
         Person_init p args kwds = (p, Some (TooManyArguments 3 (length args + dict_size kwds))) \<and>
         exception_class (TooManyArguments 3 (length args + dict_size kwds)) = TypeError"
proof -
  have init: "Person_init q args kwds = (q, Some (TooManyArguments 3 (length args + dict_size kwds)))" for q
    using assms by (simp add: Person_init_def PyArg_ParseTupleAndKeywords_def kwlist_def)
  then show ?thesis
    by (auto simp: Person_call_def Person_new_def split: sum.splits)
qed

theorem too_many_positional_witness:
  "Person_call 3 [PyUnicode ''a'', PyUnicode ''b'', PyLong 1, PyLong 2] [] = Inl (TooManyArguments 3 4)"
  using too_many_positional [of "[PyUnicode ''a'', PyUnicode ''b'', PyLong 1, PyLong 2]" 3 "[]"]
  by (simp add: dict_size_def)

subsection \<open>Failure of construction and of initialisation\<close>

text \<open>
  C4, as amended. Constructing with a value for the number that is not an integer fails
  with a \<open>TypeError\<close>, and \<open>Person_init\<close> then leaves an existing record as it was. A
  construction either fails and yields no record, or yields a record with both names
  set. When \<open>Person_init\<close> fails on an existing record, \<open>first_name\<close> and \<open>last_name\<close>
  are unchanged, and \<open>number\<close> is unchanged as well whenever the failure is not the
  parser's rejection of the keyword arguments (an unknown keyword, or a parameter given
  by name and by position): that is, for every failure of arity, type or range.
\<close>

theorem init_failure_effect:
  "(length args + dict_size kwds \<le> 3 \<and> supplied args kwds 2 = Some v \<and> int_value v = None \<longrightarrow>
      Person_init p args kwds = (p, Some NotAnInteger) \<and>
      (3 \<le> mem \<longrightarrow> Person_call mem args kwds = Inl NotAnInteger)) \<and>
   exception_class NotAnInteger = TypeError \<and>
   ((\<exists>e. Person_call mem args kwds = Inl e) \<or>
    (\<exists>q. Person_call mem args kwds = Inr q \<and> names_from (set args \<union> snd ` set kwds) q)) \<and>
   (Person_init p args kwds = (p', Some e) \<longrightarrow>
      first_name p' = first_name p \<and> last_name p' = last_name p \<and>
      (number p' = number p \<or> keyword_failure e))"
proof -
  have a: "Person_init q args kwds = (q, Some NotAnInteger)"
    if "length args + dict_size kwds \<le> 3" "supplied args kwds 2 = Some v" "int_value v = None" for q
    using parse_number_not_int [OF that] by (auto simp: Person_init_def)
  have b: "Person_call mem args kwds = Inl NotAnInteger"
    if "length args + dict_size kwds \<le> 3" "supplied args kwds 2 = Some v" "int_value v = None" "3 \<le> mem"
    using that(4) a [OF that(1-3)] by (simp add: Person_call_def Person_new_def)
  have c: "(\<exists>e. Person_call mem args kwds = Inl e) \<or>
    (\<exists>q. Person_call mem args kwds = Inr q \<and> names_from (set args \<union> snd ` set kwds) q)"
    by (cases "Person_call mem args kwds") (simp_all add: call_names_from)
  have d: "first_name p' = first_name p \<and> last_name p' = last_name p \<and>
      (number p' = number p \<or> keyword_failure e)" if "Person_init p args kwds = (p', Some e)"
    using init_failure_names [OF that] init_failure_number [OF that] by blast
  from a b c d show ?thesis by simp
qed

theorem init_failure_effect_witness:
  "Person_call 3 [] [(''number'', PyUnicode ''not-a-number'')] = Inl NotAnInteger \<and>
   Person_init
     \<lparr>first_name = Some (PyUnicode ''Ada''), last_name = Some (PyUnicode ''Doe''), number = 7\<rparr>
     [] [(''number'', PyUnicode ''not-a-number'')] =
     (\<lparr>first_name = Some (PyUnicode ''Ada''), last_name = Some (PyUnicode ''Doe''), number = 7\<rparr>,
      Some NotAnInteger)"
  using init_failure_effect
    [of "[]" "[(''number'', PyUnicode ''not-a-number'')]" "PyUnicode ''not-a-number''"
        "\<lparr>first_name = Some (PyUnicode ''Ada''), last_name = Some (PyUnicode ''Doe''), number = 7\<rparr>"
        3
        "\<lparr>first_name = Some (PyUnicode ''Ada''), last_name = Some (PyUnicode ''Doe''), number = 7\<rparr>"
        NotAnInteger]
  by (simp add: dict_size_def supplied_def kwlist_def)

text \<open>
  An initialisation that fails after the number has been written: the keyword
  \<open>bogus\<close> is rejected, and the record keeps the new number 5.
\<close>

theorem reinit_failure_changes_number:
  "Person_init
     \<lparr>first_name = Some (PyUnicode ''John''), last_name = Some (PyUnicode ''Doe''), number = 42\<rparr>
     [] [(''number'', PyLong 5), (''bogus'', PyNone)] =
     (\<lparr>first_name = Some (PyUnicode ''John''), last_name = Some (PyUnicode ''Doe''), number = 5\<rparr>,
      Some (InvalidKeyword ''bogus''))"
  by (simp add: Person_init_def PyArg_ParseTupleAndKeywords_def dict_size_def kwlist_def
        keyword_error_def INT_MAX_def INT_MIN_def LONG_MAX_def LONG_MIN_def)

subsection \<open>Assignment\<close>

text \<open>
  C5, as amended. Assignment to \<open>first_name\<close> or \<open>last_name\<close> validates nothing: it
  succeeds for every value, text or not, and construction likewise accepts any value for
  the two names. Assignment to \<open>number\<close> succeeds exactly for an integer that a C
  \<open>long\<close> holds, and fails with a \<open>TypeError\<close> for a value that is not an integer.
\<close>

theorem assignment_validation:
  "Person_setattr p Member_first_name v = Inr (p\<lparr>first_name := Some v\<rparr>) \<and>
   Person_setattr p Member_last_name v = Inr (p\<lparr>last_name := Some v\<rparr>) \<and>
   ((\<exists>p'. Person_setattr p Member_number v = Inr p') \<longleftrightarrow> fits_long v) \<and>
   (int_value v = None \<longrightarrow> Person_setattr p Member_number v = Inl NotAnInteger) \<and>
   exception_class NotAnInteger = TypeError \<and>
   (3 \<le> mem \<longrightarrow>
      (\<exists>q. Person_call mem [a, b] [] = Inr q \<and> first_name q = Some a \<and> last_name q = Some b))"
proof -
  have "(\<exists>p'. Person_setattr p Member_number v = Inr p') \<longleftrightarrow> fits_long v"
    by (cases v) (auto simp: Person_setattr_def fits_long_def LONG_MIN_def LONG_MAX_def)
  moreover have "int_value v = None \<longrightarrow> Person_setattr p Member_number v = Inl NotAnInteger"
    by (cases v) (auto simp: Person_setattr_def)
  moreover have "3 \<le> mem \<longrightarrow>
      (\<exists>q. Person_call mem [a, b] [] = Inr q \<and> first_name q = Some a \<and> last_name q = Some b)"
    by (simp add: Person_call_def Person_new_def Person_init_def PyArg_ParseTupleAndKeywords_def
          dict_size_def kwlist_def)
  ultimately show ?thesis
    by (simp add: Person_setattr_def)
qed

theorem assignment_validation_witness:
  "Person_setattr
     \<lparr>first_name = Some (PyUnicode ''John''), last_name = Some (PyUnicode ''Doe''), number = 42\<rparr>
     Member_number PyNone = Inl NotAnInteger \<and>
   \<not> fits_long PyNone \<and>
   (\<exists>q. Person_call 3 [PyNone, PyLong 1] [] = Inr q \<and> first_name q = Some PyNone \<and>
        last_name q = Some (PyLong 1))"
  using assignment_validation
    [of "\<lparr>first_name = Some (PyUnicode ''John''), last_name = Some (PyUnicode ''Doe''), number = 42\<rparr>"
        PyNone 3 PyNone "PyLong 1"]
  by (simp add: fits_long_def)

text \<open>An assignment of a value that is not text to \<open>first_name\<close> succeeds.\<close>

theorem assign_non_text_name:
  "\<not> is_text (PyLong 5) \<and>
   Person_setattr
     \<lparr>first_name = Some (PyUnicode ''John''), last_name = Some (PyUnicode ''Doe''), number = 42\<rparr>
     Member_first_name (PyLong 5) =
     Inr \<lparr>first_name = Some (PyLong 5), last_name = Some (PyUnicode ''Doe''), number = 42\<rparr>"
  by (simp add: Person_setattr_def)

subsection \<open>The range of number\<close>

text \<open>
  C6, as amended. For every integer \<open>n\<close> that a C \<open>int\<close> holds, from \<open>-2^31\<close> to
  \<open>2^31 - 1\<close>, constructing with the number \<open>n\<close> (by keyword or by position) and
  assigning \<open>n\<close> to \<open>number\<close> succeed, and reading \<open>number\<close> afterwards returns \<open>n\<close>.
\<close>

theorem number_within_int_range:
  assumes "INT_MIN \<le> n" and "n \<le> INT_MAX"
  shows "(3 \<le> mem \<longrightarrow>
           (\<exists>q. Person_call mem [] [(''number'', PyLong n)] = Inr q \<and>
                Person_getattr q Member_number = Inr (PyLong n))) \<and>
         (3 \<le> mem \<longrightarrow>
           (\<exists>q. Person_call mem [a, b, PyLong n] [] = Inr q \<and>
                Person_getattr q Member_number = Inr (PyLong n))) \<and>
         (\<exists>p'. Person_setattr p Member_number (PyLong n) = Inr p' \<and>
               Person_getattr p' Member_number = Inr (PyLong n))"
proof -
  have long: "LONG_MIN \<le> n" "n \<le> LONG_MAX"
    using assms by (simp_all add: INT_MIN_def INT_MAX_def LONG_MIN_def LONG_MAX_def)
  have conv: "convertitem (PyLong n) Fmt_i = Inr (CInt (word_of_int n))"
    using assms long by simp
  note rd = sint_in_range [OF assms]
  have "3 \<le> mem \<longrightarrow>
           (\<exists>q. Person_call mem [] [(''number'', PyLong n)] = Inr q \<and>
                Person_getattr q Member_number = Inr (PyLong n))"
    using conv rd
    by (simp add: Person_call_def Person_new_def Person_init_def PyArg_ParseTupleAndKeywords_def
          dict_size_def kwlist_def Person_getattr_def del: convertitem.simps)
  moreover have "3 \<le> mem \<longrightarrow>
           (\<exists>q. Person_call mem [a, b, PyLong n] [] = Inr q \<and>
                Person_getattr q Member_number = Inr (PyLong n))"
    using conv rd
    by (simp add: Person_call_def Person_new_def Person_init_def PyArg_ParseTupleAndKeywords_def
          dict_size_def kwlist_def Person_getattr_def del: convertitem.simps(2))
  moreover have "\<exists>p'. Person_setattr p Member_number (PyLong n) = Inr p' \<and>
               Person_getattr p' Member_number = Inr (PyLong n)"
    using long rd by (simp add: Person_setattr_def Person_getattr_def)
  ultimately show ?thesis by blast
qed

theorem number_within_int_range_witness:
  "INT_MIN \<le> - 2147483648 \<and> - 2147483648 \<le> INT_MAX \<and>
   (\<exists>q. Person_call 3 [] [(''number'', PyLong (- 2147483648))] = Inr q \<and>
        Person_getattr q Member_number = Inr (PyLong (- 2147483648))) \<and>
   (\<exists>p'. Person_setattr
           \<lparr>first_name = Some (PyUnicode ''John''), last_name = Some (PyUnicode ''Doe''), number = 42\<rparr>
           Member_number (PyLong (- 2147483648)) = Inr p' \<and>
         Person_getattr p' Member_number = Inr (PyLong (- 2147483648)))"
  using number_within_int_range
    [of "- 2147483648" 3 PyNone PyNone
        "\<lparr>first_name = Some (PyUnicode ''John''), last_name = Some (PyUnicode ''Doe''), number = 42\<rparr>"]
  by (simp add: INT_MIN_def INT_MAX_def)

text \<open>
  Beyond the range of a C \<open>int\<close>: constructing with the number \<open>2^31\<close> raises an
  \<open>OverflowError\<close>, and assigning \<open>2^31\<close> stores the truncated value, which reads
  back as \<open>-2^31\<close>.
\<close>

theorem number_beyond_int_range:
  "Person_call 3 [] [(''number'', PyLong 2147483648)] = Inl IntTooLarge \<and>
   Person_setattr
     \<lparr>first_name = Some (PyUnicode ''John''), last_name = Some (PyUnicode ''Doe''), number = 42\<rparr>
     Member_number (PyLong 2147483648) =
     Inr \<lparr>first_name = Some (PyUnicode ''John''), last_name = Some (PyUnicode ''Doe''),
          number = 2147483648\<rparr> \<and>
   Person_getattr
     \<lparr>first_name = Some (PyUnicode ''John''), last_name = Some (PyUnicode ''Doe''),
      number = 2147483648\<rparr> Member_number = Inr (PyLong (- 2147483648))"
  by (simp add: Person_call_def Person_new_def Person_init_def PyArg_ParseTupleAndKeywords_def
        dict_size_def kwlist_def Person_setattr_def Person_getattr_def
        INT_MAX_def INT_MIN_def LONG_MAX_def LONG_MIN_def)

subsection \<open>The names stay set\<close>

text \<open>
  C7, as amended. After a successful construction, and under every sequence of reads,
  assignments, deletions of \<open>number\<close> (which are refused), calls of \<open>name()\<close> and of \<open>str\<close>
  and initialisations, \<open>first_name\<close> and \<open>last_name\<close> are set, each to its default or
  to a value supplied by the caller. The interface permits the deletion of a name, and a
  deletion of \<open>first_name\<close> or of \<open>last_name\<close> then leaves that field unset.
\<close>

theorem names_set_without_deletion:
  assumes "Person_call mem args kwds = Inr p"
    and "list_all (\<lambda>x. \<not> name_deletion x) ops"
  shows "names_from (set args \<union> snd ` set kwds \<union> (\<Union>x \<in> set ops. op_values x)) (run p ops) \<and>
         first_name (apply_op (run p ops) (Delete Member_first_name)) = None \<and>
         last_name (apply_op (run p ops) (Delete Member_last_name)) = None"
proof -
  let ?V = "set args \<union> snd ` set kwds \<union> (\<Union>x \<in> set ops. op_values x)"
  from assms(1) have "names_from ?V p"
    by (rule call_names_from) blast
  then have inv: "names_from ?V (run p ops)"
    using assms(2) by (rule run_names_from) blast
  then obtain a b where "first_name (run p ops) = Some a" "last_name (run p ops) = Some b"
    by (auto simp: names_from_def)
  then have "first_name (apply_op (run p ops) (Delete Member_first_name)) = None"
    and "last_name (apply_op (run p ops) (Delete Member_last_name)) = None"
    by (simp_all add: Person_delattr_def)
  with inv show ?thesis by simp
qed

theorem names_set_without_deletion_witness:
  "Person_call 3 [] [(''last_name'', PyUnicode ''Lovelace'')] =
     Inr \<lparr>first_name = Some (PyUnicode ''John''), last_name = Some (PyUnicode ''Lovelace''),
          number = 42\<rparr> \<and>
   run \<lparr>first_name = Some (PyUnicode ''John''), last_name = Some (PyUnicode ''Lovelace''),
        number = 42\<rparr>
     [Write Member_first_name (PyUnicode ''Ada''), Call_name, Delete Member_number,
      Call_init [] [(''number'', PyLong 5)], Read Member_last_name, Call_str] =
     \<lparr>first_name = Some (PyUnicode ''Ada''), last_name = Some (PyUnicode ''Lovelace''), number = 5\<rparr> \<and>
   names_from {PyUnicode ''Lovelace'', PyUnicode ''Ada'', PyLong 5}
     \<lparr>first_name = Some (PyUnicode ''Ada''), last_name = Some (PyUnicode ''Lovelace''), number = 5\<rparr>"
proof -
  let ?p = "\<lparr>first_name = Some (PyUnicode ''John''), last_name = Some (PyUnicode ''Lovelace''),
              number = 42\<rparr>"
  let ?ops = "[Write Member_first_name (PyUnicode ''Ada''), Call_name, Delete Member_number,
      Call_init [] [(''number'', PyLong 5)], Read Member_last_name, Call_str]"
  have call: "Person_call 3 [] [(''last_name'', PyUnicode ''Lovelace'')] = Inr ?p"
    by (simp add: Person_call_def Person_new_def Person_init_def PyArg_ParseTupleAndKeywords_def
          dict_size_def kwlist_def)
  have ops: "list_all (\<lambda>x. \<not> name_deletion x) ?ops" by simp
  have run: "run ?p ?ops =
     \<lparr>first_name = Some (PyUnicode ''Ada''), last_name = Some (PyUnicode ''Lovelace''), number = 5\<rparr>"
    by (simp add: Person_setattr_def Person_delattr_def Person_init_def
          PyArg_ParseTupleAndKeywords_def dict_size_def kwlist_def
          INT_MAX_def INT_MIN_def LONG_MAX_def LONG_MIN_def)
  from names_set_without_deletion [OF call ops] show ?thesis
    using call run by (simp add: insert_commute)
qed

text \<open>
  \<^verbatim>\<open>del p.first_name\<close> on a new record leaves \<open>first_name\<close> unset, and \<open>name()\<close>
  then raises.
\<close>

theorem deletion_unsets_name:
  "Person_call 3 [] [] =
     Inr \<lparr>first_name = Some (PyUnicode ''John''), last_name = Some (PyUnicode ''Doe''), number = 42\<rparr> \<and>
   run \<lparr>first_name = Some (PyUnicode ''John''), last_name = Some (PyUnicode ''Doe''), number = 42\<rparr>
     [Delete Member_first_name] =
     \<lparr>first_name = None, last_name = Some (PyUnicode ''Doe''), number = 42\<rparr> \<and>
   Person_name \<lparr>first_name = None, last_name = Some (PyUnicode ''Doe''), number = 42\<rparr> =
     Inl (MissingAttribute ''first_name'')"
  by (simp add: Person_call_def Person_new_def Person_init_def PyArg_ParseTupleAndKeywords_def
        dict_size_def kwlist_def Person_delattr_def Person_name_def)

end
